theory Spec2Isabelle
  imports Complex_Main
begin

section \<open>The hybrid rocket simulation of hybrid.py\<close>

text \<open>
  The program is a fixed-step (forward Euler) integration of the port radius of a hybrid
  rocket motor. Python's floats are modelled by the real numbers: every arithmetic
  operation is the exact one, and \<open>np.pi\<close> is \<open>pi\<close>. Rounding, overflow to infinity
  and the OverflowError of \<open>**\<close> are therefore outside the model; whatever is proved
  here is a statement about the algorithm in exact arithmetic. The exceptions that the
  arithmetic of the source can raise on real inputs (division by zero, zero to a negative
  power, reading a local variable that was never assigned) are values of the type
  \<open>error\<close>.
\<close>

subsection \<open>Module constants\<close>

text \<open>
  The source keeps its configuration in module-level names, read by every function. The
  model passes them as a record, so that statements can range over configurations;
  \<open>module_constants\<close> holds the values written in the file.
\<close>

record constants =
  REGRESSION_RATE_COEFFICIENT :: real
  OXIDIZER_FLUX_EXPONENT :: real
  FUEL_DENSITY :: real
  GRAIN_LENGTH :: real
  INITIAL_PORT_RADIUS :: real
  MAX_PORT_RADIUS :: real
  OXIDIZER_MASS_FLOW_RATE :: real
  CHARACTERISTIC_VELOCITY :: real
  THROAT_AREA :: real
  DELTA_T :: real
  SIMULATION_DURATION :: real
  SINGULARITY_THRESHOLD :: real

definition module_constants :: constants where
  "module_constants =
     \<lparr> REGRESSION_RATE_COEFFICIENT = 5 / 1000,
       OXIDIZER_FLUX_EXPONENT = 8 / 10,
       FUEL_DENSITY = 970,
       GRAIN_LENGTH = 1,
       INITIAL_PORT_RADIUS = 2 / 100,
       MAX_PORT_RADIUS = 5 / 10,
       OXIDIZER_MASS_FLOW_RATE = 5 / 10,
       CHARACTERISTIC_VELOCITY = 1500,
       THROAT_AREA = 1 / 100,
       DELTA_T = 1 / 100,
       SIMULATION_DURATION = 10,
       SINGULARITY_THRESHOLD = 1 / 100 \<rparr>"

text \<open>
  The configurations the design calls valid: every value strictly positive, and the
  maximum port radius above the initial one.
\<close>

definition valid_constants :: "constants \<Rightarrow> bool" where
  "valid_constants c \<longleftrightarrow>
     0 < REGRESSION_RATE_COEFFICIENT c \<and> 0 < OXIDIZER_FLUX_EXPONENT c \<and>
     0 < FUEL_DENSITY c \<and> 0 < GRAIN_LENGTH c \<and> 0 < INITIAL_PORT_RADIUS c \<and>
     0 < MAX_PORT_RADIUS c \<and> 0 < OXIDIZER_MASS_FLOW_RATE c \<and>
     0 < CHARACTERISTIC_VELOCITY c \<and> 0 < THROAT_AREA c \<and> 0 < DELTA_T c \<and>
     0 < SIMULATION_DURATION c \<and> 0 < SINGULARITY_THRESHOLD c \<and>
     INITIAL_PORT_RADIUS c < MAX_PORT_RADIUS c"

subsection \<open>Python arithmetic that can fail\<close>

datatype error =
  ZeroDivisionError | UnboundLocalError | ComplexValue | OverflowError | NonFiniteValue

text \<open>\<open>a / b\<close> on floats raises ZeroDivisionError when \<open>b\<close> is zero.\<close>

definition py_div :: "real \<Rightarrow> real \<Rightarrow> error + real" where
  "py_div a b = (if b = 0 then Inl ZeroDivisionError else Inr (a / b))"

text \<open>
  \<open>v ** w\<close> on floats: anything to the power zero is one; zero to a negative power
  raises ZeroDivisionError; a negative base with a whole exponent keeps the sign of the
  parity; a negative base with a fractional exponent gives a complex number in Python 3.
  The model does not follow complex values: it stops there with \<open>ComplexValue\<close>.
\<close>

definition py_pow :: "real \<Rightarrow> real \<Rightarrow> error + real" where
  "py_pow v w =
     (if w = 0 then Inr 1
      else if v = 0 then (if w < 0 then Inl ZeroDivisionError else Inr 0)
      else if v < 0 then
        (if real_of_int \<lfloor>w\<rfloor> = w
         then Inr (if even \<lfloor>w\<rfloor> then (- v) powr w else - ((- v) powr w))
         else Inl ComplexValue)
      else Inr (v powr w))"

subsection \<open>The four physical relations\<close>

definition calculate_regression_rate :: "constants \<Rightarrow> real \<Rightarrow> real \<Rightarrow> error + real" where
  "calculate_regression_rate c pr flux =
     (if pr < SINGULARITY_THRESHOLD c
      then (case py_pow flux (OXIDIZER_FLUX_EXPONENT c) of
              Inl e \<Rightarrow> Inl e
            | Inr p \<Rightarrow> Inr (REGRESSION_RATE_COEFFICIENT c * p))
      else (case py_pow flux (OXIDIZER_FLUX_EXPONENT c) of
              Inl e \<Rightarrow> Inl e
            | Inr p \<Rightarrow> Inr (REGRESSION_RATE_COEFFICIENT c * p)))"

definition calculate_fuel_flow_rate :: "constants \<Rightarrow> real \<Rightarrow> real \<Rightarrow> real" where
  "calculate_fuel_flow_rate c pr rr =
     (let surface_area = 2 * pi * pr * GRAIN_LENGTH c
      in FUEL_DENSITY c * surface_area * rr)"

definition calculate_chamber_pressure :: "constants \<Rightarrow> real \<Rightarrow> error + real" where
  "calculate_chamber_pressure c m = py_div (m * CHARACTERISTIC_VELOCITY c) (THROAT_AREA c)"

definition calculate_thrust :: "constants \<Rightarrow> real \<Rightarrow> real" where
  "calculate_thrust c m = m * CHARACTERISTIC_VELOCITY c"

subsection \<open>The local variables of \<open>simulate_hybrid_rocket\<close>\<close>

text \<open>
  The function's frame: the three variables and four lists assigned before the loop, and
  the six names that are assigned only inside the loop body. A name of the second kind is
  unbound (\<open>None\<close>) until the body has run once.
\<close>

record frame =
  time :: real
  port_radius :: real
  total_fuel_consumed :: real
  time_data :: "real list"
  port_radius_data :: "real list"
  chamber_pressure_data :: "real list"
  thrust_data :: "real list"
  oxidizer_flux :: "real option"
  regression_rate :: "real option"
  fuel_flow_rate :: "real option"
  total_mass_flow_rate :: "real option"
  chamber_pressure :: "real option"
  thrust :: "real option"

definition initial_frame :: "constants \<Rightarrow> frame" where
  "initial_frame c =
     \<lparr> time = 0,
       port_radius = INITIAL_PORT_RADIUS c,
       total_fuel_consumed = 0,
       time_data = [], port_radius_data = [], chamber_pressure_data = [], thrust_data = [],
       oxidizer_flux = None, regression_rate = None, fuel_flow_rate = None,
       total_mass_flow_rate = None, chamber_pressure = None, thrust = None \<rparr>"

text \<open>The loop condition of line 60.\<close>

definition loop_cond :: "constants \<Rightarrow> frame \<Rightarrow> bool" where
  "loop_cond c s \<longleftrightarrow> time s < SIMULATION_DURATION c \<and> port_radius s < MAX_PORT_RADIUS c"

text \<open>
  One pass through the loop body, lines 61 to 90, in the order of the source: the flux
  and the regression rate from the radius before the update, then the update of the
  radius, then the fuel flow from the updated radius.
\<close>

definition loop_body :: "constants \<Rightarrow> frame \<Rightarrow> error + frame" where
  "loop_body c s =
     (case py_div (OXIDIZER_MASS_FLOW_RATE c) (pi * (port_radius s) ^ 2) of
        Inl e \<Rightarrow> Inl e
      | Inr flux \<Rightarrow>
          (case calculate_regression_rate c (port_radius s) flux of
             Inl e \<Rightarrow> Inl e
           | Inr rr \<Rightarrow>
               (let pr = port_radius s + rr * DELTA_T c;
                    ff = calculate_fuel_flow_rate c pr rr;
                    total = OXIDIZER_MASS_FLOW_RATE c + ff
                in (case calculate_chamber_pressure c total of
                      Inl e \<Rightarrow> Inl e
                    | Inr cp \<Rightarrow>
                        (let th = calculate_thrust c total
                         in Inr (s\<lparr> oxidizer_flux := Some flux,
                                    regression_rate := Some rr,
                                    port_radius := pr,
                                    fuel_flow_rate := Some ff,
                                    total_mass_flow_rate := Some total,
                                    chamber_pressure := Some cp,
                                    thrust := Some th,
                                    total_fuel_consumed := total_fuel_consumed s + ff * DELTA_T c,
                                    time_data := time_data s @ [time s],
                                    port_radius_data := port_radius_data s @ [pr],
                                    chamber_pressure_data := chamber_pressure_data s @ [cp],
                                    thrust_data := thrust_data s @ [th],
                                    time := time s + DELTA_T c \<rparr>))))))"

text \<open>
  The while loop. Nothing in the source bounds the number of passes (with a time step of
  zero the condition never changes), so the loop is a partial function: \<open>None\<close> is a
  run that never leaves the loop, \<open>Some (Inl e)\<close> a run that raised \<open>e\<close>.
\<close>

partial_function (option) while_loop :: "constants \<Rightarrow> frame \<Rightarrow> (error + frame) option" where
  "while_loop c s =
     (if loop_cond c s
      then (case loop_body c s of
              Inl e \<Rightarrow> Some (Inl e)
            | Inr s' \<Rightarrow> while_loop c s')
      else Some (Inr s))"

text \<open>
  The value returned at line 93: the four lists, the fuel consumed, the port radius, and
  the last chamber pressure and thrust. The last two are read from names that exist only
  once the body has run.
\<close>

type_synonym results =
  "real list \<times> real list \<times> real list \<times> real list \<times> real \<times> real \<times> real \<times> real"

definition return_results :: "frame \<Rightarrow> error + results" where
  "return_results s =
     (case chamber_pressure s of
        None \<Rightarrow> Inl UnboundLocalError
      | Some cp \<Rightarrow>
          (case thrust s of
             None \<Rightarrow> Inl UnboundLocalError
           | Some th \<Rightarrow>
               Inr (time_data s, port_radius_data s, chamber_pressure_data s, thrust_data s,
                    total_fuel_consumed s, port_radius s, cp, th)))"

definition simulate_hybrid_rocket :: "constants \<Rightarrow> (error + results) option" where
  "simulate_hybrid_rocket c =
     (case while_loop c (initial_frame c) of
        None \<Rightarrow> None
      | Some (Inl e) \<Rightarrow> Some (Inl e)
      | Some (Inr s) \<Rightarrow> Some (return_results s))"

text \<open>
  The regression rate in the design's words: the coefficient times the flux raised to the
  exponent, with no guard on the port radius.
\<close>

definition unconditional_regression_rate :: "constants \<Rightarrow> real \<Rightarrow> real" where
  "unconditional_regression_rate c flux =
     REGRESSION_RATE_COEFFICIENT c * flux powr OXIDIZER_FLUX_EXPONENT c"

subsection \<open>Passes of the loop, for stating what the series record\<close>

text \<open>
  The frame after \<open>n\<close> passes of the body from a given frame, when none of them
  raised. This is not a function of the source: it names the intermediate frames of the
  loop so that statements can speak of "pass \<open>i\<close>".
\<close>

fun passes :: "nat \<Rightarrow> constants \<Rightarrow> frame \<Rightarrow> error + frame" where
  "passes 0 c s = Inr s"
| "passes (Suc n) c s =
     (case passes n c s of Inl e \<Rightarrow> Inl e | Inr s' \<Rightarrow> loop_body c s')"

text \<open>
  Pass \<open>i\<close> of a run (counted from zero) started at time \<open>t\<close> and produced the port
  radius \<open>r\<close>, the chamber pressure \<open>p\<close> and the thrust \<open>f\<close>.
\<close>

definition pass_record :: "constants \<Rightarrow> nat \<Rightarrow> real \<Rightarrow> real \<Rightarrow> real \<Rightarrow> real \<Rightarrow> bool" where
  "pass_record c i t r p f \<longleftrightarrow>
     (\<exists>a b. passes i c (initial_frame c) = Inr a \<and> loop_cond c a \<and>
            loop_body c a = Inr b \<and> t = time a \<and> r = port_radius b \<and>
            chamber_pressure b = Some p \<and> thrust b = Some f)"

subsection \<open>Two example configurations\<close>

text \<open>
  A configuration whose second pass carries the port radius past the maximum. The
  oxidizer mass flow rate is \<open>np.pi\<close>, which makes the flux a rational number.
\<close>

definition overshoot_constants :: constants where
  "overshoot_constants =
     \<lparr> REGRESSION_RATE_COEFFICIENT = 1,
       OXIDIZER_FLUX_EXPONENT = 1,
       FUEL_DENSITY = 1,
       GRAIN_LENGTH = 1,
       INITIAL_PORT_RADIUS = 1,
       MAX_PORT_RADIUS = 21 / 10,
       OXIDIZER_MASS_FLOW_RATE = pi,
       CHARACTERISTIC_VELOCITY = 1,
       THROAT_AREA = 1,
       DELTA_T = 1,
       SIMULATION_DURATION = 10,
       SINGULARITY_THRESHOLD = 1 / 100 \<rparr>"

text \<open>
  A configuration with flux exponent 2 and a long time step, which runs for two passes.
\<close>

definition steep_constants :: constants where
  "steep_constants =
     \<lparr> REGRESSION_RATE_COEFFICIENT = 1,
       OXIDIZER_FLUX_EXPONENT = 2,
       FUEL_DENSITY = 10,
       GRAIN_LENGTH = 1,
       INITIAL_PORT_RADIUS = 1,
       MAX_PORT_RADIUS = 1000,
       OXIDIZER_MASS_FLOW_RATE = pi,
       CHARACTERISTIC_VELOCITY = 1,
       THROAT_AREA = 1,
       DELTA_T = 1,
       SIMULATION_DURATION = 2,
       SINGULARITY_THRESHOLD = 1 / 100 \<rparr>"

section \<open>Basic facts\<close>

subsection \<open>Arithmetic\<close>

lemma py_pow_nonneg:
  assumes "0 \<le> v" and "v = 0 \<longrightarrow> 0 < w"
  shows "py_pow v w = Inr (v powr w)"
  using assms by (auto simp: py_pow_def)

lemma regression_rate_no_guard:
  "calculate_regression_rate c pr flux =
     (case py_pow flux (OXIDIZER_FLUX_EXPONENT c) of
        Inl e \<Rightarrow> Inl e
      | Inr p \<Rightarrow> Inr (REGRESSION_RATE_COEFFICIENT c * p))"
  by (simp add: calculate_regression_rate_def)

subsection \<open>Unfolding the loop\<close>

lemma while_loop_stop: "\<not> loop_cond c s \<Longrightarrow> while_loop c s = Some (Inr s)"
  by (subst while_loop.simps) simp

lemma while_loop_step:
  "loop_cond c s \<Longrightarrow> loop_body c s = Inr s' \<Longrightarrow> while_loop c s = while_loop c s'"
  by (subst while_loop.simps) simp

lemma while_loop_raise:
  "loop_cond c s \<Longrightarrow> loop_body c s = Inl e \<Longrightarrow> while_loop c s = Some (Inl e)"
  by (subst while_loop.simps) simp

lemma no_pass_raises:
  assumes "\<not> loop_cond c (initial_frame c)"
  shows "simulate_hybrid_rocket c = Some (Inl UnboundLocalError)"
  using assms
  by (simp add: simulate_hybrid_rocket_def while_loop_stop return_results_def initial_frame_def)

text \<open>
  The invariant rule of the loop: a property that holds of the first frame and survives
  every pass holds of the frame the loop ends with; and a run that raised did so in a pass
  that started from a frame with the property.
\<close>

lemma while_loop_rule:
  assumes run: "while_loop c s = Some r"
    and init: "I s"
    and step: "\<And>s s'. I s \<Longrightarrow> loop_cond c s \<Longrightarrow> loop_body c s = Inr s' \<Longrightarrow> I s'"
  shows "case r of
           Inl e \<Rightarrow> \<exists>s'. I s' \<and> loop_cond c s' \<and> loop_body c s' = Inl e
         | Inr s' \<Rightarrow> I s' \<and> \<not> loop_cond c s'"
proof -
  let ?Q = "\<lambda>r. case r of
           Inl e \<Rightarrow> \<exists>s'. I s' \<and> loop_cond c s' \<and> loop_body c s' = Inl e
         | Inr s' \<Rightarrow> I s' \<and> \<not> loop_cond c s'"
  have "c' = c \<longrightarrow> I s' \<longrightarrow> ?Q r'" if "while_loop c' s' = Some r'" for c' s' r'
  proof (rule while_loop.raw_induct [where P = "\<lambda>c' s r. c' = c \<longrightarrow> I s \<longrightarrow> ?Q r", OF _ that])
    fix loop c' s r
    assume IH: "\<And>c' s r. loop c' s = Some r \<Longrightarrow> c' = c \<longrightarrow> I s \<longrightarrow> ?Q r"
      and eq: "(if loop_cond c' s
                then case loop_body c' s of Inl e \<Rightarrow> Some (Inl e) | Inr s' \<Rightarrow> loop c' s'
                else Some (Inr s)) = Some r"
    show "c' = c \<longrightarrow> I s \<longrightarrow> ?Q r"
    proof (intro impI)
      assume c': "c' = c" and inv: "I s"
      show "?Q r"
      proof (cases "loop_cond c s")
        case False
        with eq c' inv show ?thesis by auto
      next
        case True
        show ?thesis
        proof (cases "loop_body c s")
          case (Inl e)
          with True eq c' inv show ?thesis by auto
        next
          case (Inr s')
          with True eq c' have "loop c' s' = Some r" by simp
          moreover have "I s'" using step [OF inv True Inr] .
          ultimately show ?thesis using IH c' by blast
        qed
      qed
    qed
  qed
  with run init show ?thesis by blast
qed

lemma final_frame_rule:
  assumes "while_loop c s = Some (Inr s')" and "I s"
    and "\<And>s s'. I s \<Longrightarrow> loop_cond c s \<Longrightarrow> loop_body c s = Inr s' \<Longrightarrow> I s'"
  shows "I s'" and "\<not> loop_cond c s'"
  using while_loop_rule [where I = I, OF assms] by simp_all

subsection \<open>One pass of the body\<close>

lemma loop_body_Inr:
  assumes "loop_body c s = Inr s'"
  obtains flux rr ff cp where
    "port_radius s \<noteq> 0"
    "flux = OXIDIZER_MASS_FLOW_RATE c / (pi * (port_radius s) ^ 2)"
    "calculate_regression_rate c (port_radius s) flux = Inr rr"
    "ff = calculate_fuel_flow_rate c (port_radius s + rr * DELTA_T c) rr"
    "THROAT_AREA c \<noteq> 0"
    "cp = (OXIDIZER_MASS_FLOW_RATE c + ff) * CHARACTERISTIC_VELOCITY c / THROAT_AREA c"
    "s' = s\<lparr> oxidizer_flux := Some flux,
              regression_rate := Some rr,
              port_radius := port_radius s + rr * DELTA_T c,
              fuel_flow_rate := Some ff,
              total_mass_flow_rate := Some (OXIDIZER_MASS_FLOW_RATE c + ff),
              chamber_pressure := Some cp,
              thrust := Some (calculate_thrust c (OXIDIZER_MASS_FLOW_RATE c + ff)),
              total_fuel_consumed := total_fuel_consumed s + ff * DELTA_T c,
              time_data := time_data s @ [time s],
              port_radius_data := port_radius_data s @ [port_radius s + rr * DELTA_T c],
              chamber_pressure_data := chamber_pressure_data s @ [cp],
              thrust_data := thrust_data s @
                 [calculate_thrust c (OXIDIZER_MASS_FLOW_RATE c + ff)],
              time := time s + DELTA_T c \<rparr>"
  using assms
  unfolding loop_body_def calculate_chamber_pressure_def py_div_def Let_def
  by (auto split: if_splits sum.splits)

lemma loop_body_time: "loop_body c s = Inr s' \<Longrightarrow> time s' = time s + DELTA_T c"
  by (erule loop_body_Inr) simp

lemma loop_body_appends:
  assumes "loop_body c s = Inr s'"
  shows "time_data s' = time_data s @ [time s]"
    and "port_radius_data s' = port_radius_data s @ [port_radius s']"
    and "\<exists>cp. chamber_pressure s' = Some cp \<and>
              chamber_pressure_data s' = chamber_pressure_data s @ [cp]"
    and "\<exists>th. thrust s' = Some th \<and> thrust_data s' = thrust_data s @ [th]"
  using assms by (auto elim!: loop_body_Inr)

text \<open>With valid constants a pass from a positive radius succeeds and enlarges the radius.\<close>

lemma regression_rate_valid:
  assumes "valid_constants c" and "0 < pr"
  obtains rr where
    "calculate_regression_rate c pr (OXIDIZER_MASS_FLOW_RATE c / (pi * pr ^ 2)) = Inr rr"
    "0 < rr"
proof -
  let ?flux = "OXIDIZER_MASS_FLOW_RATE c / (pi * pr ^ 2)"
  have flux: "0 < ?flux" using assms by (simp add: valid_constants_def)
  then have "py_pow ?flux (OXIDIZER_FLUX_EXPONENT c) = Inr (?flux powr OXIDIZER_FLUX_EXPONENT c)"
    by (intro py_pow_nonneg) auto
  then have "calculate_regression_rate c pr ?flux
               = Inr (REGRESSION_RATE_COEFFICIENT c * ?flux powr OXIDIZER_FLUX_EXPONENT c)"
    by (simp add: regression_rate_no_guard)
  moreover have "0 < ?flux powr OXIDIZER_FLUX_EXPONENT c"
    using flux by (simp only: powr_gt_zero)
  then have "0 < REGRESSION_RATE_COEFFICIENT c * ?flux powr OXIDIZER_FLUX_EXPONENT c"
    using assms(1) by (intro mult_pos_pos) (simp_all add: valid_constants_def)
  ultimately show ?thesis using that by blast
qed

lemma loop_body_valid:
  assumes v: "valid_constants c" and r: "0 < port_radius s"
  obtains s' where "loop_body c s = Inr s'" "port_radius s < port_radius s'"
proof -
  obtain rr where rr: "calculate_regression_rate c (port_radius s)
       (OXIDIZER_MASS_FLOW_RATE c / (pi * (port_radius s) ^ 2)) = Inr rr" "0 < rr"
    using regression_rate_valid [OF v r] by blast
  have A: "THROAT_AREA c \<noteq> 0" and dt: "0 < DELTA_T c"
    using v by (simp_all add: valid_constants_def)
  have nz: "pi * (port_radius s) ^ 2 \<noteq> 0" using r by simp
  from rr(2) dt have "0 < rr * DELTA_T c" by simp
  then show ?thesis
    using that rr(1) A nz
    by (simp add: loop_body_def py_div_def calculate_chamber_pressure_def Let_def)
qed

subsection \<open>Termination and runs with valid constants\<close>

text \<open>
  With a positive time step the loop ends: each pass moves the time one step closer to
  the duration.
\<close>

lemma while_loop_terminates:
  assumes dt: "0 < DELTA_T c"
  shows "\<exists>r. while_loop c s = Some r"
proof (induction "nat \<lceil>(SIMULATION_DURATION c - time s) / DELTA_T c\<rceil>" arbitrary: s rule: less_induct)
  case less
  show ?case
  proof (cases "loop_cond c s")
    case False
    then show ?thesis by (auto simp: while_loop_stop)
  next
    case True
    show ?thesis
    proof (cases "loop_body c s")
      case (Inl e)
      with True show ?thesis by (auto simp: while_loop_raise)
    next
      case (Inr s')
      have t: "time s' = time s + DELTA_T c" using Inr by (rule loop_body_time)
      from True have pos: "0 < (SIMULATION_DURATION c - time s) / DELTA_T c"
        using dt by (simp add: loop_cond_def)
      have "(SIMULATION_DURATION c - time s') / DELTA_T c
              = (SIMULATION_DURATION c - time s) / DELTA_T c - 1"
        using dt t by (simp add: field_simps)
      then have "\<lceil>(SIMULATION_DURATION c - time s') / DELTA_T c\<rceil>
                   = \<lceil>(SIMULATION_DURATION c - time s) / DELTA_T c\<rceil> - 1"
        by simp
      moreover have "0 < \<lceil>(SIMULATION_DURATION c - time s) / DELTA_T c\<rceil>"
        using pos by simp
      ultimately have "nat \<lceil>(SIMULATION_DURATION c - time s') / DELTA_T c\<rceil>
                         < nat \<lceil>(SIMULATION_DURATION c - time s) / DELTA_T c\<rceil>"
        by linarith
      then have "\<exists>r. while_loop c s' = Some r" by (rule less)
      then show ?thesis using True Inr by (simp add: while_loop_step)
    qed
  qed
qed

lemma simulate_returns_iff:
  "simulate_hybrid_rocket c = Some (Inr (td, prd, cpd, thd, tfc, pr, cp, th)) \<longleftrightarrow>
     (\<exists>s. while_loop c (initial_frame c) = Some (Inr s) \<and>
          td = time_data s \<and> prd = port_radius_data s \<and>
          cpd = chamber_pressure_data s \<and> thd = thrust_data s \<and>
          tfc = total_fuel_consumed s \<and> pr = port_radius s \<and>
          chamber_pressure s = Some cp \<and> thrust s = Some th)"
  by (auto simp: simulate_hybrid_rocket_def return_results_def split: option.splits sum.splits)

lemma loop_body_valid_radius:
  assumes "valid_constants c" "0 < port_radius s" "loop_body c s = Inr s'"
  shows "port_radius s < port_radius s'"
  using loop_body_valid [OF assms(1,2)] assms(3) by (metis sum.inject(2))

lemma valid_loop_returns:
  assumes v: "valid_constants c" and r: "0 < port_radius s"
  obtains s' where "while_loop c s = Some (Inr s')" "0 < port_radius s'"
proof -
  from v have "0 < DELTA_T c" by (simp add: valid_constants_def)
  then obtain res where res: "while_loop c s = Some res"
    using while_loop_terminates by blast
  have step: "0 < port_radius b"
    if "0 < port_radius a" "loop_cond c a" "loop_body c a = Inr b" for a b
    using loop_body_valid_radius [OF v that(1,3)] that(1) by simp
  have R: "case res of
             Inl e \<Rightarrow> \<exists>a. 0 < port_radius a \<and> loop_cond c a \<and> loop_body c a = Inl e
           | Inr s' \<Rightarrow> 0 < port_radius s' \<and> \<not> loop_cond c s'"
    by (rule while_loop_rule [where I = "\<lambda>s. 0 < port_radius s", OF res r]) (rule step)
  show ?thesis
  proof (cases res)
    case (Inl e)
    with R obtain a where "0 < port_radius a" "loop_body c a = Inl e" by auto
    with loop_body_valid [OF v, of a] show ?thesis by auto
  next
    case (Inr s')
    with R res that show ?thesis by auto
  qed
qed

lemma valid_first_pass:
  assumes v: "valid_constants c"
  obtains s1 where "loop_body c (initial_frame c) = Inr s1"
    "while_loop c (initial_frame c) = while_loop c s1" "0 < port_radius s1"
proof -
  have r0: "0 < port_radius (initial_frame c)"
    using v by (simp add: valid_constants_def initial_frame_def)
  obtain s1 where s1: "loop_body c (initial_frame c) = Inr s1"
    "port_radius (initial_frame c) < port_radius s1"
    using loop_body_valid [OF v r0] by blast
  have "loop_cond c (initial_frame c)"
    using v by (simp add: valid_constants_def initial_frame_def loop_cond_def)
  then have "while_loop c (initial_frame c) = while_loop c s1"
    using s1(1) by (rule while_loop_step)
  with s1 r0 that show ?thesis by simp
qed

lemma bound_after_pass:
  assumes "while_loop c s = Some (Inr s')"
    and "chamber_pressure s \<noteq> None" "thrust s \<noteq> None"
  shows "chamber_pressure s' \<noteq> None \<and> thrust s' \<noteq> None"
proof (rule final_frame_rule(1) [where I = "\<lambda>s. chamber_pressure s \<noteq> None \<and> thrust s \<noteq> None",
      OF assms(1)])
  show "chamber_pressure s \<noteq> None \<and> thrust s \<noteq> None" using assms by simp
next
  fix a b assume "loop_body c a = Inr b"
  then show "chamber_pressure b \<noteq> None \<and> thrust b \<noteq> None"
    using loop_body_appends(3,4) by fastforce
qed

lemma valid_run:
  assumes v: "valid_constants c"
  obtains s cp th where "while_loop c (initial_frame c) = Some (Inr s)"
    "chamber_pressure s = Some cp" "thrust s = Some th"
proof -
  obtain s1 where s1: "loop_body c (initial_frame c) = Inr s1"
    "while_loop c (initial_frame c) = while_loop c s1" "0 < port_radius s1"
    using valid_first_pass [OF v] by blast
  obtain s where s: "while_loop c s1 = Some (Inr s)"
    using valid_loop_returns [OF v s1(3)] by blast
  have "chamber_pressure s1 \<noteq> None" "thrust s1 \<noteq> None"
    using loop_body_appends(3,4) [OF s1(1)] by auto
  with s have "chamber_pressure s \<noteq> None \<and> thrust s \<noteq> None"
    by (rule bound_after_pass)
  with s s1(2) that show ?thesis by auto
qed

lemma valid_simulate:
  assumes v: "valid_constants c"
  obtains s cp th where "while_loop c (initial_frame c) = Some (Inr s)"
    "simulate_hybrid_rocket c =
       Some (Inr (time_data s, port_radius_data s, chamber_pressure_data s, thrust_data s,
                  total_fuel_consumed s, port_radius s, cp, th))"
proof -
  obtain s cp th where "while_loop c (initial_frame c) = Some (Inr s)"
    "chamber_pressure s = Some cp" "thrust s = Some th"
    using valid_run [OF v] by blast
  then show ?thesis using that by (simp add: simulate_returns_iff)
qed

subsection \<open>The example runs\<close>

lemmas eval_defs =
  loop_body_def loop_cond_def initial_frame_def py_div_def calculate_regression_rate_def
  py_pow_def calculate_fuel_flow_rate_def calculate_chamber_pressure_def
  calculate_thrust_def Let_def

text \<open>
  The run with \<open>overshoot_constants\<close>: two passes, the second of which leaves the
  port radius at 9/4, above the maximum of 21/10.
\<close>

lemma overshoot_loop:
  "while_loop overshoot_constants (initial_frame overshoot_constants) =
     Some (Inr \<lparr> time = 2, port_radius = 9 / 4, total_fuel_consumed = 41 * pi / 8,
           time_data = [0, 1], port_radius_data = [2, 9 / 4],
           chamber_pressure_data = [5 * pi, 17 * pi / 8],
           thrust_data = [5 * pi, 17 * pi / 8],
           oxidizer_flux = Some (1 / 4), regression_rate = Some (1 / 4),
           fuel_flow_rate = Some (9 * pi / 8), total_mass_flow_rate = Some (17 * pi / 8),
           chamber_pressure = Some (17 * pi / 8), thrust = Some (17 * pi / 8) \<rparr>)"
proof -
  let ?c = overshoot_constants
  let ?s1 = "\<lparr> time = 1, port_radius = 2, total_fuel_consumed = 4 * pi,
           time_data = [0], port_radius_data = [2],
           chamber_pressure_data = [5 * pi], thrust_data = [5 * pi],
           oxidizer_flux = Some 1, regression_rate = Some 1,
           fuel_flow_rate = Some (4 * pi), total_mass_flow_rate = Some (5 * pi),
           chamber_pressure = Some (5 * pi), thrust = Some (5 * pi) \<rparr>"
  let ?s2 = "\<lparr> time = 2, port_radius = 9 / 4, total_fuel_consumed = 41 * pi / 8,
           time_data = [0, 1], port_radius_data = [2, 9 / 4],
           chamber_pressure_data = [5 * pi, 17 * pi / 8],
           thrust_data = [5 * pi, 17 * pi / 8],
           oxidizer_flux = Some (1 / 4), regression_rate = Some (1 / 4),
           fuel_flow_rate = Some (9 * pi / 8), total_mass_flow_rate = Some (17 * pi / 8),
           chamber_pressure = Some (17 * pi / 8), thrust = Some (17 * pi / 8) \<rparr>"
  have c0: "loop_cond ?c (initial_frame ?c)"
    by (simp add: loop_cond_def initial_frame_def overshoot_constants_def)
  have b0: "loop_body ?c (initial_frame ?c) = Inr ?s1"
    by (simp add: eval_defs overshoot_constants_def)
  have c1: "loop_cond ?c ?s1"
    by (simp add: loop_cond_def overshoot_constants_def)
  have b1: "loop_body ?c ?s1 = Inr ?s2"
    by (simp add: eval_defs overshoot_constants_def)
  have c2: "\<not> loop_cond ?c ?s2"
    by (simp add: loop_cond_def overshoot_constants_def)
  show ?thesis
    by (simp only: while_loop_step [OF c0 b0] while_loop_step [OF c1 b1] while_loop_stop [OF c2])
qed

lemma overshoot_run:
  "simulate_hybrid_rocket overshoot_constants =
     Some (Inr ([0, 1], [2, 9 / 4], [5 * pi, 17 * pi / 8], [5 * pi, 17 * pi / 8],
                41 * pi / 8, 9 / 4, 17 * pi / 8, 17 * pi / 8))"
  by (simp add: simulate_hybrid_rocket_def overshoot_loop return_results_def)

text \<open>
  The run with \<open>steep_constants\<close>, and the run with its oxidizer mass flow rate
  doubled: two passes each.
\<close>

lemma steep_loop:
  "while_loop steep_constants (initial_frame steep_constants) =
     Some (Inr \<lparr> time = 2, port_radius = 33 / 16, total_fuel_consumed = 2725 * pi / 64,
           time_data = [0, 1], port_radius_data = [2, 33 / 16],
           chamber_pressure_data = [41 * pi, 229 * pi / 64],
           thrust_data = [41 * pi, 229 * pi / 64],
           oxidizer_flux = Some (1 / 4), regression_rate = Some (1 / 16),
           fuel_flow_rate = Some (165 * pi / 64), total_mass_flow_rate = Some (229 * pi / 64),
           chamber_pressure = Some (229 * pi / 64), thrust = Some (229 * pi / 64) \<rparr>)"
proof -
  let ?c = steep_constants
  let ?s1 = "\<lparr> time = 1, port_radius = 2, total_fuel_consumed = 40 * pi,
           time_data = [0], port_radius_data = [2],
           chamber_pressure_data = [41 * pi], thrust_data = [41 * pi],
           oxidizer_flux = Some 1, regression_rate = Some 1,
           fuel_flow_rate = Some (40 * pi), total_mass_flow_rate = Some (41 * pi),
           chamber_pressure = Some (41 * pi), thrust = Some (41 * pi) \<rparr>"
  let ?s2 = "\<lparr> time = 2, port_radius = 33 / 16, total_fuel_consumed = 2725 * pi / 64,
           time_data = [0, 1], port_radius_data = [2, 33 / 16],
           chamber_pressure_data = [41 * pi, 229 * pi / 64],
           thrust_data = [41 * pi, 229 * pi / 64],
           oxidizer_flux = Some (1 / 4), regression_rate = Some (1 / 16),
           fuel_flow_rate = Some (165 * pi / 64), total_mass_flow_rate = Some (229 * pi / 64),
           chamber_pressure = Some (229 * pi / 64), thrust = Some (229 * pi / 64) \<rparr>"
  have c0: "loop_cond ?c (initial_frame ?c)"
    by (simp add: loop_cond_def initial_frame_def steep_constants_def)
  have b0: "loop_body ?c (initial_frame ?c) = Inr ?s1"
    by (simp add: eval_defs steep_constants_def power2_eq_square)
  have c1: "loop_cond ?c ?s1"
    by (simp add: loop_cond_def steep_constants_def)
  have b1: "loop_body ?c ?s1 = Inr ?s2"
    by (simp add: eval_defs steep_constants_def power2_eq_square)
  have c2: "\<not> loop_cond ?c ?s2"
    by (simp add: loop_cond_def steep_constants_def)
  show ?thesis
    by (simp only: while_loop_step [OF c0 b0] while_loop_step [OF c1 b1] while_loop_stop [OF c2])
qed


section \<open>What a run records\<close>

text \<open>Every pass appends one entry to each of the four lists.\<close>

lemma series_lengths:
  assumes "while_loop c (initial_frame c) = Some (Inr s)"
  shows "length (port_radius_data s) = length (time_data s) \<and>
         length (chamber_pressure_data s) = length (time_data s) \<and>
         length (thrust_data s) = length (time_data s)"
proof (rule final_frame_rule(1) [where I = "\<lambda>s.
         length (port_radius_data s) = length (time_data s) \<and>
         length (chamber_pressure_data s) = length (time_data s) \<and>
         length (thrust_data s) = length (time_data s)", OF assms])
  show "length (port_radius_data (initial_frame c)) = length (time_data (initial_frame c)) \<and>
        length (chamber_pressure_data (initial_frame c)) = length (time_data (initial_frame c)) \<and>
        length (thrust_data (initial_frame c)) = length (time_data (initial_frame c))"
    by (simp add: initial_frame_def)
next
  fix a b
  assume I: "length (port_radius_data a) = length (time_data a) \<and>
         length (chamber_pressure_data a) = length (time_data a) \<and>
         length (thrust_data a) = length (time_data a)"
    and b: "loop_body c a = Inr b"
  from loop_body_appends [OF b] I
  show "length (port_radius_data b) = length (time_data b) \<and>
         length (chamber_pressure_data b) = length (time_data b) \<and>
         length (thrust_data b) = length (time_data b)"
    by auto
qed

text \<open>
  The recorded times are the whole multiples of the time step, each below the duration.
\<close>

lemma time_stamps:
  assumes "while_loop c (initial_frame c) = Some (Inr s)"
  shows "time_data s = map (\<lambda>i. real i * DELTA_T c) [0..<length (time_data s)] \<and>
         time s = real (length (time_data s)) * DELTA_T c \<and>
         (\<forall>t\<in>set (time_data s). t < SIMULATION_DURATION c)"
proof (rule final_frame_rule(1) [where I = "\<lambda>s.
         time_data s = map (\<lambda>i. real i * DELTA_T c) [0..<length (time_data s)] \<and>
         time s = real (length (time_data s)) * DELTA_T c \<and>
         (\<forall>t\<in>set (time_data s). t < SIMULATION_DURATION c)", OF assms])
  show "time_data (initial_frame c)
          = map (\<lambda>i. real i * DELTA_T c) [0..<length (time_data (initial_frame c))] \<and>
        time (initial_frame c) = real (length (time_data (initial_frame c))) * DELTA_T c \<and>
        (\<forall>t\<in>set (time_data (initial_frame c)). t < SIMULATION_DURATION c)"
    by (simp add: initial_frame_def)
next
  fix a b
  assume I: "time_data a = map (\<lambda>i. real i * DELTA_T c) [0..<length (time_data a)] \<and>
         time a = real (length (time_data a)) * DELTA_T c \<and>
         (\<forall>t\<in>set (time_data a). t < SIMULATION_DURATION c)"
    and g: "loop_cond c a" and b: "loop_body c a = Inr b"
  have td: "time_data b = time_data a @ [time a]" using loop_body_appends(1) [OF b] .
  have t: "time b = time a + DELTA_T c" using loop_body_time [OF b] .
  have 1: "time_data b = map (\<lambda>i. real i * DELTA_T c) [0..<length (time_data b)]"
    using I td by simp
  have 2: "time b = real (length (time_data b)) * DELTA_T c"
    using I td t by (simp add: algebra_simps)
  have 3: "\<forall>t\<in>set (time_data b). t < SIMULATION_DURATION c"
    using I td g by (auto simp: loop_cond_def)
  from 1 2 3
  show "time_data b = map (\<lambda>i. real i * DELTA_T c) [0..<length (time_data b)] \<and>
         time b = real (length (time_data b)) * DELTA_T c \<and>
         (\<forall>t\<in>set (time_data b). t < SIMULATION_DURATION c)"
    by blast
qed

text \<open>
  A recorded radius was tested against the maximum before the next pass, so every entry
  but the last is below it; the last entry is the current radius.
\<close>

lemma radius_below_max:
  assumes "while_loop c (initial_frame c) = Some (Inr s)"
  shows "(\<forall>y\<in>set (butlast (port_radius_data s)). y < MAX_PORT_RADIUS c) \<and>
         (port_radius_data s \<noteq> [] \<longrightarrow> last (port_radius_data s) = port_radius s)"
proof (rule final_frame_rule(1) [where I = "\<lambda>s.
         (\<forall>y\<in>set (butlast (port_radius_data s)). y < MAX_PORT_RADIUS c) \<and>
         (port_radius_data s \<noteq> [] \<longrightarrow> last (port_radius_data s) = port_radius s)", OF assms])
  show "(\<forall>y\<in>set (butlast (port_radius_data (initial_frame c))). y < MAX_PORT_RADIUS c) \<and>
        (port_radius_data (initial_frame c) \<noteq> [] \<longrightarrow>
           last (port_radius_data (initial_frame c)) = port_radius (initial_frame c))"
    by (simp add: initial_frame_def)
next
  fix a b
  assume I: "(\<forall>y\<in>set (butlast (port_radius_data a)). y < MAX_PORT_RADIUS c) \<and>
         (port_radius_data a \<noteq> [] \<longrightarrow> last (port_radius_data a) = port_radius a)"
    and g: "loop_cond c a" and b: "loop_body c a = Inr b"
  have prd: "port_radius_data b = port_radius_data a @ [port_radius b]"
    using loop_body_appends(2) [OF b] .
  have "y < MAX_PORT_RADIUS c" if "y \<in> set (port_radius_data a)" for y
  proof (cases "y \<in> set (butlast (port_radius_data a))")
    case True
    with I show ?thesis by blast
  next
    case False
    from that have ne: "port_radius_data a \<noteq> []" by auto
    have "set (butlast (port_radius_data a) @ [last (port_radius_data a)])
            = insert (last (port_radius_data a)) (set (butlast (port_radius_data a)))"
      by simp
    then have "set (port_radius_data a)
                 = insert (last (port_radius_data a)) (set (butlast (port_radius_data a)))"
      by (simp only: append_butlast_last_id [OF ne])
    with that False have "y = last (port_radius_data a)" by blast
    with I ne g show ?thesis by (simp add: loop_cond_def)
  qed
  with prd
  show "(\<forall>y\<in>set (butlast (port_radius_data b)). y < MAX_PORT_RADIUS c) \<and>
         (port_radius_data b \<noteq> [] \<longrightarrow> last (port_radius_data b) = port_radius b)"
    by simp
qed

text \<open>With valid constants the radius grows in every pass.\<close>

lemma radius_sorted:
  assumes v: "valid_constants c" and run: "while_loop c (initial_frame c) = Some (Inr s)"
  shows "0 < port_radius s \<and> sorted (port_radius_data s) \<and>
         (\<forall>y\<in>set (port_radius_data s). y \<le> port_radius s)"
proof (rule final_frame_rule(1) [where I = "\<lambda>s.
         0 < port_radius s \<and> sorted (port_radius_data s) \<and>
         (\<forall>y\<in>set (port_radius_data s). y \<le> port_radius s)", OF run])
  show "0 < port_radius (initial_frame c) \<and> sorted (port_radius_data (initial_frame c)) \<and>
        (\<forall>y\<in>set (port_radius_data (initial_frame c)). y \<le> port_radius (initial_frame c))"
    using v by (simp add: initial_frame_def valid_constants_def)
next
  fix a b
  assume I: "0 < port_radius a \<and> sorted (port_radius_data a) \<and>
         (\<forall>y\<in>set (port_radius_data a). y \<le> port_radius a)"
    and b: "loop_body c a = Inr b"
  have prd: "port_radius_data b = port_radius_data a @ [port_radius b]"
    using loop_body_appends(2) [OF b] .
  have up: "port_radius a < port_radius b"
    using loop_body_valid_radius [OF v _ b] I by blast
  have "\<forall>y\<in>set (port_radius_data a). y \<le> port_radius b"
    using I up by fastforce
  with I up prd
  show "0 < port_radius b \<and> sorted (port_radius_data b) \<and>
         (\<forall>y\<in>set (port_radius_data b). y \<le> port_radius b)"
    by (simp add: sorted_append)
qed

text \<open>
  Entry \<open>i\<close> of the four lists is what pass \<open>i\<close> recorded, and the final frame is the
  frame after as many passes as there are entries.
\<close>

lemma passes_Suc_Inr:
  "passes n c s = Inr a \<Longrightarrow> loop_body c a = Inr b \<Longrightarrow> passes (Suc n) c s = Inr b"
  by simp

lemma series_passes:
  assumes "while_loop c (initial_frame c) = Some (Inr s)"
  shows "passes (length (time_data s)) c (initial_frame c) = Inr s \<and>
         (\<forall>i<length (time_data s).
            pass_record c i (time_data s ! i) (port_radius_data s ! i)
              (chamber_pressure_data s ! i) (thrust_data s ! i))"
proof (rule final_frame_rule(1) [where I = "\<lambda>s.
         (length (port_radius_data s) = length (time_data s) \<and>
          length (chamber_pressure_data s) = length (time_data s) \<and>
          length (thrust_data s) = length (time_data s)) \<and>
         passes (length (time_data s)) c (initial_frame c) = Inr s \<and>
         (\<forall>i<length (time_data s).
            pass_record c i (time_data s ! i) (port_radius_data s ! i)
              (chamber_pressure_data s ! i) (thrust_data s ! i))", OF assms, THEN conjunct2])
  show "(length (port_radius_data (initial_frame c)) = length (time_data (initial_frame c)) \<and>
          length (chamber_pressure_data (initial_frame c)) = length (time_data (initial_frame c)) \<and>
          length (thrust_data (initial_frame c)) = length (time_data (initial_frame c))) \<and>
         passes (length (time_data (initial_frame c))) c (initial_frame c) = Inr (initial_frame c) \<and>
         (\<forall>i<length (time_data (initial_frame c)).
            pass_record c i (time_data (initial_frame c) ! i) (port_radius_data (initial_frame c) ! i)
              (chamber_pressure_data (initial_frame c) ! i) (thrust_data (initial_frame c) ! i))"
    by (simp add: initial_frame_def)
next
  fix a b
  assume I: "(length (port_radius_data a) = length (time_data a) \<and>
          length (chamber_pressure_data a) = length (time_data a) \<and>
          length (thrust_data a) = length (time_data a)) \<and>
         passes (length (time_data a)) c (initial_frame c) = Inr a \<and>
         (\<forall>i<length (time_data a).
            pass_record c i (time_data a ! i) (port_radius_data a ! i)
              (chamber_pressure_data a ! i) (thrust_data a ! i))"
    and g: "loop_cond c a" and b: "loop_body c a = Inr b"
  let ?n = "length (time_data a)"
  have td: "time_data b = time_data a @ [time a]"
    and prd: "port_radius_data b = port_radius_data a @ [port_radius b]"
    using loop_body_appends(1,2) [OF b] by simp_all
  obtain cp where cp: "chamber_pressure b = Some cp"
    "chamber_pressure_data b = chamber_pressure_data a @ [cp]"
    using loop_body_appends(3) [OF b] by blast
  obtain th where th: "thrust b = Some th" "thrust_data b = thrust_data a @ [th]"
    using loop_body_appends(4) [OF b] by blast
  have len: "length (port_radius_data b) = length (time_data b) \<and>
          length (chamber_pressure_data b) = length (time_data b) \<and>
          length (thrust_data b) = length (time_data b)"
    using I td prd cp(2) th(2) by simp
  have p: "passes (length (time_data b)) c (initial_frame c) = Inr b"
    using I b td by simp
  have new: "pass_record c ?n (time a) (port_radius b) cp th"
    unfolding pass_record_def using I g b cp(1) th(1) by blast
  have "pass_record c i (time_data b ! i) (port_radius_data b ! i)
              (chamber_pressure_data b ! i) (thrust_data b ! i)"
    if "i < length (time_data b)" for i
  proof (cases "i < ?n")
    case True
    then show ?thesis using I td prd cp(2) th(2) by (simp add: nth_append)
  next
    case False
    with that td have "i = ?n" by simp
    then show ?thesis using new I td prd cp(2) th(2) by (simp add: nth_append)
  qed
  with len p
  show "(length (port_radius_data b) = length (time_data b) \<and>
          length (chamber_pressure_data b) = length (time_data b) \<and>
          length (thrust_data b) = length (time_data b)) \<and>
         passes (length (time_data b)) c (initial_frame c) = Inr b \<and>
         (\<forall>i<length (time_data b).
            pass_record c i (time_data b ! i) (port_radius_data b ! i)
              (chamber_pressure_data b ! i) (thrust_data b ! i))"
    by blast
qed

lemma valid_module_constants: "valid_constants module_constants"
  by (simp add: valid_constants_def module_constants_def)

lemma valid_overshoot_constants: "valid_constants overshoot_constants"
  by (simp add: valid_constants_def overshoot_constants_def)


lemma steep_run:
  "simulate_hybrid_rocket steep_constants =
     Some (Inr ([0, 1], [2, 33 / 16], [41 * pi, 229 * pi / 64], [41 * pi, 229 * pi / 64],
                2725 * pi / 64, 33 / 16, 229 * pi / 64, 229 * pi / 64))"
  by (simp add: simulate_hybrid_rocket_def steep_loop return_results_def)







lemma overshoot_first_pass:
  "loop_body overshoot_constants (initial_frame overshoot_constants) =
     Inr \<lparr> time = 1, port_radius = 2, total_fuel_consumed = 4 * pi,
           time_data = [0], port_radius_data = [2],
           chamber_pressure_data = [5 * pi], thrust_data = [5 * pi],
           oxidizer_flux = Some 1, regression_rate = Some 1,
           fuel_flow_rate = Some (4 * pi), total_mass_flow_rate = Some (5 * pi),
           chamber_pressure = Some (5 * pi), thrust = Some (5 * pi) \<rparr>"
  by (simp add: eval_defs overshoot_constants_def)

section \<open>Identities of exact arithmetic\<close>

text \<open>
  The three facts of this section rest on the arithmetic being exact: that \<open>n\<close>
  additions of the time step give \<open>n * DELTA_T\<close>, and that dividing by a quotient undoes
  the division. They describe the algorithm over the real numbers and say nothing about
  rounded arithmetic, where neither equation holds in general.
\<close>

lemma exact_time_series:
  assumes "while_loop c (initial_frame c) = Some (Inr s)" and "i < length (time_data s)"
  shows "time_data s ! i = real i * DELTA_T c"
proof -
  have "time_data s = map (\<lambda>i. real i * DELTA_T c) [0..<length (time_data s)]"
    using time_stamps [OF assms(1)] by simp
  then have "time_data s ! i = map (\<lambda>i. real i * DELTA_T c) [0..<length (time_data s)] ! i"
    by simp
  also have "\<dots> = real i * DELTA_T c" using assms(2) by simp
  finally show ?thesis .
qed

lemma exact_step_bound:
  assumes dt: "0 < DELTA_T c" and s: "while_loop c (initial_frame c) = Some (Inr s)"
  shows "length (time_data s) \<le> nat \<lceil>SIMULATION_DURATION c / DELTA_T c\<rceil>"
proof (cases "time_data s = []")
  case True
  then show ?thesis by simp
next
  case False
  let ?n = "length (time_data s)"
  from False have n: "?n - 1 < ?n" by simp
  then have "time_data s ! (?n - 1) \<in> set (time_data s)" by (rule nth_mem)
  then have "time_data s ! (?n - 1) < SIMULATION_DURATION c"
    using time_stamps [OF s] by blast
  then have "real (?n - 1) * DELTA_T c < SIMULATION_DURATION c"
    using exact_time_series [OF s n] by simp
  then have "real (?n - 1) < SIMULATION_DURATION c / DELTA_T c"
    using dt by (simp add: pos_less_divide_eq)
  also have "\<dots> \<le> real_of_int \<lceil>SIMULATION_DURATION c / DELTA_T c\<rceil>" by simp
  finally have "int (?n - 1) < \<lceil>SIMULATION_DURATION c / DELTA_T c\<rceil>" by linarith
  then show ?thesis using n by linarith
qed

lemma exact_thrust_pressure_ratio:
  assumes v: "valid_constants c" and s: "while_loop c (initial_frame c) = Some (Inr s)"
  shows "list_all2 (\<lambda>f p. f / p = THROAT_AREA c) (thrust_data s) (chamber_pressure_data s)"
proof -
  have "0 < port_radius s \<and>
        list_all2 (\<lambda>f p. f / p = THROAT_AREA c) (thrust_data s) (chamber_pressure_data s)"
  proof (rule final_frame_rule(1) [where I = "\<lambda>s. 0 < port_radius s \<and>
        list_all2 (\<lambda>f p. f / p = THROAT_AREA c) (thrust_data s) (chamber_pressure_data s)",
        OF s])
    show "0 < port_radius (initial_frame c) \<and>
          list_all2 (\<lambda>f p. f / p = THROAT_AREA c) (thrust_data (initial_frame c))
            (chamber_pressure_data (initial_frame c))"
      using v by (simp add: initial_frame_def valid_constants_def)
  next
    fix a b
    assume I: "0 < port_radius a \<and>
        list_all2 (\<lambda>f p. f / p = THROAT_AREA c) (thrust_data a) (chamber_pressure_data a)"
      and b: "loop_body c a = Inr b"
    have pos: "0 < OXIDIZER_MASS_FLOW_RATE c" "0 < DELTA_T c" "0 < CHARACTERISTIC_VELOCITY c"
      "0 < FUEL_DENSITY c" "0 < GRAIN_LENGTH c" "0 < THROAT_AREA c"
      using v by (simp_all add: valid_constants_def)
    from I have r: "0 < port_radius a" by simp
    have up: "port_radius a < port_radius b" using loop_body_valid_radius [OF v r b] .
    from b obtain rr where rr: "calculate_regression_rate c (port_radius a)
          (OXIDIZER_MASS_FLOW_RATE c / (pi * (port_radius a) ^ 2)) = Inr rr"
      and th: "thrust_data b = thrust_data a @
          [(OXIDIZER_MASS_FLOW_RATE c + calculate_fuel_flow_rate c (port_radius a + rr * DELTA_T c) rr)
             * CHARACTERISTIC_VELOCITY c]"
      and cp: "chamber_pressure_data b = chamber_pressure_data a @
          [(OXIDIZER_MASS_FLOW_RATE c + calculate_fuel_flow_rate c (port_radius a + rr * DELTA_T c) rr)
             * CHARACTERISTIC_VELOCITY c / THROAT_AREA c]"
      by (elim loop_body_Inr) (simp add: calculate_thrust_def)
    have rr_pos: "0 < rr"
      using regression_rate_valid [OF v r] rr by (metis sum.inject(2))
    have "0 < calculate_fuel_flow_rate c (port_radius a + rr * DELTA_T c) rr"
      using pos r rr_pos by (simp add: calculate_fuel_flow_rate_def Let_def add_pos_pos)
    then have m: "0 < (OXIDIZER_MASS_FLOW_RATE c
            + calculate_fuel_flow_rate c (port_radius a + rr * DELTA_T c) rr)
            * CHARACTERISTIC_VELOCITY c"
      using pos by (simp add: add_pos_pos)
    have ratio: "x / (x / THROAT_AREA c) = THROAT_AREA c" if "0 < x" for x
      using that pos(6) by simp
    have "list_all2 (\<lambda>f p. f / p = THROAT_AREA c) (thrust_data b) (chamber_pressure_data b)"
      unfolding th cp using I ratio [OF m]
      by (intro list_all2_appendI) simp_all
    with r up
    show "0 < port_radius b \<and>
        list_all2 (\<lambda>f p. f / p = THROAT_AREA c) (thrust_data b) (chamber_pressure_data b)"
      by simp
  qed
  then show ?thesis by simp
qed

section \<open>The claims\<close>

text \<open>
  C1. A configuration whose maximum port radius is not above the initial one, or whose
  duration is not positive, makes the loop condition false at once. The claim is that
  the run then returns empty series and the initial scalars. It does not: the return
  statement reads \<open>chamber_pressure\<close> and \<open>thrust\<close>, which only the loop body
  assigns, so the run ends in UnboundLocalError. Shown at the module's constants with the
  maximum radius lowered to the initial radius, and with the duration set to zero.
\<close>

theorem degenerate_run_raises:
  "simulate_hybrid_rocket (module_constants\<lparr>MAX_PORT_RADIUS := 2 / 100\<rparr>)
     = Some (Inl UnboundLocalError) \<and>
   simulate_hybrid_rocket (module_constants\<lparr>SIMULATION_DURATION := 0\<rparr>)
     = Some (Inl UnboundLocalError)"
proof -
  have "\<not> loop_cond (module_constants\<lparr>MAX_PORT_RADIUS := 2 / 100\<rparr>)
            (initial_frame (module_constants\<lparr>MAX_PORT_RADIUS := 2 / 100\<rparr>))"
    by (simp add: loop_cond_def initial_frame_def module_constants_def)
  moreover have "\<not> loop_cond (module_constants\<lparr>SIMULATION_DURATION := 0\<rparr>)
            (initial_frame (module_constants\<lparr>SIMULATION_DURATION := 0\<rparr>))"
    by (simp add: loop_cond_def initial_frame_def module_constants_def)
  ultimately show ?thesis by (simp add: no_pass_raises)
qed

text \<open>
  C2. In every pass of the loop body the fuel flow rate is computed from the port radius
  after the forward Euler update and from the regression rate that was computed from the
  radius before the update: with \<open>rr\<close> the regression rate at the old radius \<open>r\<close>, the
  new radius is \<open>r + rr * DELTA_T\<close> and the fuel flow rate is
  \<open>2 * pi * (r + rr * DELTA_T) * GRAIN_LENGTH * FUEL_DENSITY * rr\<close>.
\<close>

theorem fuel_flow_uses_updated_radius:
  assumes "loop_body c s = Inr s'"
  shows "\<exists>rr. calculate_regression_rate c (port_radius s)
                 (OXIDIZER_MASS_FLOW_RATE c / (pi * (port_radius s) ^ 2)) = Inr rr \<and>
              regression_rate s' = Some rr \<and>
              port_radius s' = port_radius s + rr * DELTA_T c \<and>
              fuel_flow_rate s' =
                Some (2 * pi * (port_radius s + rr * DELTA_T c) * GRAIN_LENGTH c
                        * FUEL_DENSITY c * rr)"
  using assms
  by (elim loop_body_Inr) (simp add: calculate_fuel_flow_rate_def Let_def)

theorem fuel_flow_uses_updated_radius_witness:
  "loop_body overshoot_constants (initial_frame overshoot_constants) =
     Inr \<lparr> time = 1, port_radius = 2, total_fuel_consumed = 4 * pi,
           time_data = [0], port_radius_data = [2],
           chamber_pressure_data = [5 * pi], thrust_data = [5 * pi],
           oxidizer_flux = Some 1, regression_rate = Some 1,
           fuel_flow_rate = Some (4 * pi), total_mass_flow_rate = Some (5 * pi),
           chamber_pressure = Some (5 * pi), thrust = Some (5 * pi) \<rparr> \<and>
   calculate_regression_rate overshoot_constants 1 (pi / (pi * 1 ^ 2)) = Inr 1 \<and>
   Some (4 * pi) = Some (2 * pi * (1 + 1 * 1) * 1 * 1 * (1::real)) \<and>
   (\<exists>s' rr. loop_body module_constants (initial_frame module_constants) = Inr s' \<and>
           regression_rate s' = Some rr \<and>
           port_radius s' = 2 / 100 + rr * (1 / 100) \<and>
           fuel_flow_rate s' = Some (2 * pi * (2 / 100 + rr * (1 / 100)) * 1 * 970 * rr))"
proof -
  have "0 < port_radius (initial_frame module_constants)"
    by (simp add: initial_frame_def module_constants_def)
  then obtain s' where s': "loop_body module_constants (initial_frame module_constants) = Inr s'"
    using loop_body_valid [OF valid_module_constants] by blast
  from fuel_flow_uses_updated_radius [OF s'] s'
  have m: "\<exists>s' rr. loop_body module_constants (initial_frame module_constants) = Inr s' \<and>
           regression_rate s' = Some rr \<and>
           port_radius s' = 2 / 100 + rr * (1 / 100) \<and>
           fuel_flow_rate s' = Some (2 * pi * (2 / 100 + rr * (1 / 100)) * 1 * 970 * rr)"
    by (auto simp: initial_frame_def module_constants_def)
  from fuel_flow_uses_updated_radius [OF overshoot_first_pass]
  have "calculate_regression_rate overshoot_constants 1 (pi / (pi * 1 ^ 2)) = Inr 1 \<and>
        Some (4 * pi) = Some (2 * pi * (1 + 1 * 1) * 1 * 1 * (1::real))"
    by (auto simp: initial_frame_def overshoot_constants_def)
  with m overshoot_first_pass show ?thesis by blast
qed

text \<open>
  C3. For a flux that is not negative (and, when the flux is zero, an exponent that is
  positive, as the module's 0.8 is), the guarded function returns the coefficient times
  the flux to the exponent whatever the port radius is: the test against the singularity
  threshold changes nothing.
\<close>

theorem regression_rate_guard_is_noop:
  assumes "0 \<le> flux" and "flux = 0 \<longrightarrow> 0 < OXIDIZER_FLUX_EXPONENT c"
  shows "calculate_regression_rate c pr flux = Inr (unconditional_regression_rate c flux)"
  using assms
  by (simp add: regression_rate_no_guard py_pow_nonneg unconditional_regression_rate_def)

theorem regression_rate_guard_is_noop_witness:
  "(0::real) \<le> 1 \<and>
   calculate_regression_rate module_constants (1 / 1000) 1 = Inr (5 / 1000) \<and>
   calculate_regression_rate module_constants 1 1 = Inr (5 / 1000) \<and>
   calculate_regression_rate module_constants (1 / 1000) 0 = Inr 0 \<and>
   calculate_regression_rate module_constants 1 0 = Inr 0"
proof -
  have e: "0 < OXIDIZER_FLUX_EXPONENT module_constants"
    by (simp add: module_constants_def)
  have one: "unconditional_regression_rate module_constants 1 = 5 / 1000"
    by (simp add: unconditional_regression_rate_def module_constants_def)
  have zero: "unconditional_regression_rate module_constants 0 = 0"
    by (simp add: unconditional_regression_rate_def module_constants_def)
  show ?thesis
    using regression_rate_guard_is_noop [of 1 module_constants "1 / 1000"]
      regression_rate_guard_is_noop [of 1 module_constants 1]
      regression_rate_guard_is_noop [of 0 module_constants "1 / 1000"]
      regression_rate_guard_is_noop [of 0 module_constants 1]
      e one zero
    by simp
qed

text \<open>
  C5. With valid constants the run returns, and the port radius series it returns never
  decreases from one entry to the next: the regression rate is positive and the radius
  only ever has it added.
\<close>

theorem port_radius_series_nondecreasing:
  assumes "valid_constants c"
  shows "\<exists>td prd cpd thd tfc pr cp th.
           simulate_hybrid_rocket c = Some (Inr (td, prd, cpd, thd, tfc, pr, cp, th)) \<and>
           (\<forall>i. Suc i < length prd \<longrightarrow> prd ! i \<le> prd ! Suc i)"
proof -
  obtain s cp th where s: "while_loop c (initial_frame c) = Some (Inr s)"
    and sim: "simulate_hybrid_rocket c =
       Some (Inr (time_data s, port_radius_data s, chamber_pressure_data s, thrust_data s,
                  total_fuel_consumed s, port_radius s, cp, th))"
    using valid_simulate [OF assms] by blast
  have "sorted (port_radius_data s)" using radius_sorted [OF assms s] by simp
  then have "\<forall>i. Suc i < length (port_radius_data s) \<longrightarrow>
               port_radius_data s ! i \<le> port_radius_data s ! Suc i"
    by (simp add: sorted_iff_nth_Suc)
  with sim show ?thesis by blast
qed

theorem port_radius_series_nondecreasing_witness:
  "valid_constants module_constants \<and>
   (\<exists>td prd cpd thd tfc pr cp th.
      simulate_hybrid_rocket module_constants = Some (Inr (td, prd, cpd, thd, tfc, pr, cp, th)) \<and>
      (\<forall>i. Suc i < length prd \<longrightarrow> prd ! i \<le> prd ! Suc i))"
  using port_radius_series_nondecreasing [OF valid_module_constants] valid_module_constants
  by blast

text \<open>
  C8. The four series a run returns have the same length, and entry \<open>i\<close> of each of
  them belongs to the same pass of the loop: the time at which pass \<open>i\<close> started, and the
  port radius, chamber pressure and thrust that this pass computed.
\<close>

theorem series_aligned:
  assumes "simulate_hybrid_rocket c = Some (Inr (td, prd, cpd, thd, tfc, pr, cp, th))"
  shows "length prd = length td \<and> length cpd = length td \<and> length thd = length td \<and>
         (\<forall>i<length td. pass_record c i (td ! i) (prd ! i) (cpd ! i) (thd ! i))"
proof -
  from assms obtain s where s: "while_loop c (initial_frame c) = Some (Inr s)"
    and eq: "td = time_data s" "prd = port_radius_data s" "cpd = chamber_pressure_data s"
      "thd = thrust_data s"
    by (auto simp: simulate_returns_iff)
  from series_lengths [OF s] series_passes [OF s] eq show ?thesis by simp
qed

theorem series_aligned_witness:
  "simulate_hybrid_rocket steep_constants =
     Some (Inr ([0, 1], [2, 33 / 16], [41 * pi, 229 * pi / 64], [41 * pi, 229 * pi / 64],
                2725 * pi / 64, 33 / 16, 229 * pi / 64, 229 * pi / 64)) \<and>
   length [2, 33 / 16 :: real] = length [0, 1 :: real] \<and>
   pass_record steep_constants 0 0 2 (41 * pi) (41 * pi) \<and>
   pass_record steep_constants 1 1 (33 / 16) (229 * pi / 64) (229 * pi / 64)"
proof -
  have A: "pass_record steep_constants i ([0, 1] ! i) ([2, 33 / 16] ! i)
             ([41 * pi, 229 * pi / 64] ! i) ([41 * pi, 229 * pi / 64] ! i)"
    if "i < 2" for i
    using series_aligned [OF steep_run] that by simp
  have "(0::nat) < 2" and "(1::nat) < 2" by simp_all
  from A [OF this(1)] A [OF this(2)] steep_run show ?thesis by simp
qed




text \<open>
  C10. With valid constants the run returns, and every entry of the port radius series
  except the last is strictly below \<open>MAX_PORT_RADIUS\<close>: the loop tests the radius
  before the update and records it after. The last entry can lie above the maximum; the
  run with \<open>overshoot_constants\<close> ends at 9/4 with a maximum of 21/10.
\<close>

theorem recorded_radius_below_max_except_last:
  assumes "valid_constants c"
  shows "(\<exists>td prd cpd thd tfc pr cp th.
            simulate_hybrid_rocket c = Some (Inr (td, prd, cpd, thd, tfc, pr, cp, th)) \<and>
            (\<forall>i. Suc i < length prd \<longrightarrow> prd ! i < MAX_PORT_RADIUS c)) \<and>
         (\<exists>c' td prd cpd thd tfc pr cp th.
            valid_constants c' \<and>
            simulate_hybrid_rocket c' = Some (Inr (td, prd, cpd, thd, tfc, pr, cp, th)) \<and>
            prd \<noteq> [] \<and> MAX_PORT_RADIUS c' < last prd)"
proof
  obtain s cp th where s: "while_loop c (initial_frame c) = Some (Inr s)"
    and sim: "simulate_hybrid_rocket c =
       Some (Inr (time_data s, port_radius_data s, chamber_pressure_data s, thrust_data s,
                  total_fuel_consumed s, port_radius s, cp, th))"
    using valid_simulate [OF assms] by blast
  have below: "\<forall>y\<in>set (butlast (port_radius_data s)). y < MAX_PORT_RADIUS c"
    using radius_below_max [OF s] by simp
  have "port_radius_data s ! i < MAX_PORT_RADIUS c" if "Suc i < length (port_radius_data s)" for i
  proof -
    from that have i: "i < length (butlast (port_radius_data s))" by simp
    then have "butlast (port_radius_data s) ! i \<in> set (butlast (port_radius_data s))"
      by (rule nth_mem)
    with below i show ?thesis by (simp add: nth_butlast)
  qed
  with sim show "\<exists>td prd cpd thd tfc pr cp th.
            simulate_hybrid_rocket c = Some (Inr (td, prd, cpd, thd, tfc, pr, cp, th)) \<and>
            (\<forall>i. Suc i < length prd \<longrightarrow> prd ! i < MAX_PORT_RADIUS c)"
    by blast
next
  have "[2, 9 / 4 :: real] \<noteq> [] \<and> MAX_PORT_RADIUS overshoot_constants < last [2, 9 / 4 :: real]"
    by (simp add: overshoot_constants_def)
  with valid_overshoot_constants overshoot_run
  show "\<exists>c' td prd cpd thd tfc pr cp th.
            valid_constants c' \<and>
            simulate_hybrid_rocket c' = Some (Inr (td, prd, cpd, thd, tfc, pr, cp, th)) \<and>
            prd \<noteq> [] \<and> MAX_PORT_RADIUS c' < last prd"
    by blast
qed

theorem recorded_radius_below_max_except_last_witness:
  "valid_constants overshoot_constants \<and>
   simulate_hybrid_rocket overshoot_constants =
     Some (Inr ([0, 1], [2, 9 / 4], [5 * pi, 17 * pi / 8], [5 * pi, 17 * pi / 8],
                41 * pi / 8, 9 / 4, 17 * pi / 8, 17 * pi / 8)) \<and>
   [2, 9 / 4] ! 0 < MAX_PORT_RADIUS overshoot_constants \<and>
   MAX_PORT_RADIUS overshoot_constants < [2, 9 / 4] ! 1"
proof -
  from recorded_radius_below_max_except_last [OF valid_overshoot_constants]
  obtain td prd cpd thd tfc pr cp th where
    sim: "simulate_hybrid_rocket overshoot_constants
            = Some (Inr (td, prd, cpd, thd, tfc, pr, cp, th))"
    and below: "\<forall>i. Suc i < length prd \<longrightarrow> prd ! i < MAX_PORT_RADIUS overshoot_constants"
    by blast
  from sim overshoot_run have prd: "prd = [2, 9 / 4]" by simp
  from below prd have "[2, 9 / 4] ! 0 < MAX_PORT_RADIUS overshoot_constants" by simp
  moreover have "MAX_PORT_RADIUS overshoot_constants < [2, 9 / 4] ! 1"
    by (simp add: overshoot_constants_def)
  ultimately show ?thesis using valid_overshoot_constants overshoot_run by simp
qed

end
